theory Spec2Isabelle
  imports Complex_Main "HOL-Library.Sublist" "HOL-Library.List_Lexorder"
begin

section \<open>The dashboard updater (update-dashboard.py)\<close>

text \<open>
  A shallow embedding of the script that fetches an organisation's repositories, members,
  workflow runs and releases, formats six markdown fragments and splices them into
  README.md between marker comments.

  Python's \<open>str\<close> is a sequence of Unicode code points, and slicing and \<open>len\<close> count code
  points, so a string is a list of code points (natural numbers). \<open>lit\<close> turns an ASCII
  literal into such a list; glyphs outside ASCII are written by their code points.
\<close>

type_synonym str = "nat list"

definition lit :: "string \<Rightarrow> str" where
  "lit s = map of_char s"

subsection \<open>The string operations of Python the script uses\<close>

text \<open>\<open>sub in s\<close>: \<open>sub\<close> occurs in \<open>s\<close> at some position.\<close>

fun contains :: "'a list \<Rightarrow> 'a list \<Rightarrow> bool" where
  "contains sub [] = (sub = [])"
| "contains sub (c # cs) = (prefix sub (c # cs) \<or> contains sub cs)"

text \<open>\<open>s.find(sub)\<close>: the lowest index at which \<open>sub\<close> occurs in \<open>s\<close>, or \<open>-1\<close>.\<close>

fun find_str :: "'a list \<Rightarrow> 'a list \<Rightarrow> int" where
  "find_str [] sub = (if sub = [] then 0 else - 1)"
| "find_str (c # cs) sub =
     (if prefix sub (c # cs) then 0
      else (let r = find_str cs sub in if r = - 1 then - 1 else r + 1))"

text \<open>
  \<open>s.replace(old, new)\<close>: every occurrence of \<open>old\<close>, found left to right without
  overlap, becomes \<open>new\<close>. With an empty \<open>old\<close>, \<open>new\<close> is put before every character and
  at the end.
\<close>

function replace_str :: "'a list \<Rightarrow> 'a list \<Rightarrow> 'a list \<Rightarrow> 'a list" where
  "replace_str [] old new = (if old = [] then new else [])"
| "replace_str (c # cs) old new =
     (if old = [] then new @ concat (map (\<lambda>x. x # new) (c # cs))
      else if prefix old (c # cs)
      then new @ replace_str (drop (length old) (c # cs)) old new
      else c # replace_str cs old new)"
  by pat_completeness auto
termination
  by (relation "measure (\<lambda>(s, old, new). length s)") (auto simp: neq_Nil_conv)

text \<open>\<open>s.endswith(t)\<close>.\<close>

definition endswith :: "'a list \<Rightarrow> 'a list \<Rightarrow> bool" where
  "endswith s t = suffix t s"

text \<open>
  The slices \<open>s[:n]\<close> and \<open>s[n:]\<close>; a negative bound counts from the end of the string.
\<close>

definition slice_to :: "'a list \<Rightarrow> int \<Rightarrow> 'a list" where
  "slice_to s n = (if n < 0 then take (length s - nat (- n)) s else take (nat n) s)"

definition slice_from :: "'a list \<Rightarrow> int \<Rightarrow> 'a list" where
  "slice_from s n = (if n < 0 then drop (length s - nat (- n)) s else drop (nat n) s)"

text \<open>\<open>sep.join(parts)\<close>.\<close>

fun join :: "'a list \<Rightarrow> 'a list list \<Rightarrow> 'a list" where
  "join sep [] = []"
| "join sep [p] = p"
| "join sep (p # q # ps) = p @ sep @ join sep (q # ps)"

text \<open>\<open>str(n)\<close> for an integer, as an f-string renders it: decimal, with a minus sign.\<close>

fun str_nat :: "nat \<Rightarrow> str" where
  "str_nat n = (if n < 10 then [48 + n] else str_nat (n div 10) @ [48 + n mod 10])"

definition str_int :: "int \<Rightarrow> str" where
  "str_int i = (if i < 0 then 45 # str_nat (nat (- i)) else str_nat (nat i))"

text \<open>An f-string renders \<open>None\<close> as the word None.\<close>

definition fmt_opt :: "str option \<Rightarrow> str" where
  "fmt_opt v = (case v of None \<Rightarrow> lit ''None'' | Some s \<Rightarrow> s)"

text \<open>
  The exceptions that can escape: those the script's own expressions raise (TypeError,
  ValueError, AttributeError), those of \<open>requests.get\<close> and \<open>response.json()\<close>, and those
  of opening, reading, decoding, encoding and writing a file or the console.
\<close>

datatype error = TypeError | ValueError | AttributeError
  | RequestException | JSONDecodeError | OSError | UnicodeDecodeError | UnicodeEncodeError

text \<open>A loop over a list whose body may raise stops at the first exception.\<close>

fun traverse :: "('a \<Rightarrow> error + 'b) \<Rightarrow> 'a list \<Rightarrow> error + 'b list" where
  "traverse f [] = Inr []"
| "traverse f (x # xs) =
     (case f x of
        Inl e \<Rightarrow> Inl e
      | Inr y \<Rightarrow> (case traverse f xs of Inl e \<Rightarrow> Inl e | Inr ys \<Rightarrow> Inr (y # ys)))"

subsection \<open>The data fetched from the hosting platform\<close>

text \<open>
  The JSON objects of the API, with the fields the script reads. A key the API always
  sends is a record field; a value the API may send as \<open>null\<close> is an option, and \<open>None\<close>
  is Python's None.
\<close>

record repo =
  name :: str
  full_name :: str
  description :: "str option"
  language :: "str option"
  updated_at :: str
  stargazers_count :: int
  is_private :: bool
  html_url :: str

record member =
  login :: str
  avatar_url :: str
  member_html_url :: str

record run =
  run_name :: str
  head_branch :: "str option"
  status :: "str option"
  conclusion :: "str option"
  created_at :: str

record release =
  tag_name :: str
  release_name :: "str option"
  release_html_url :: str
  published_at :: "str option"
  prerelease :: bool

text \<open>The dictionary \<open>release_data\<close> that \<open>format_latest_releases\<close> builds per release.\<close>

record release_data =
  rd_repo :: str
  rd_tag :: str
  rd_name :: "str option"
  rd_url :: str
  rd_published_at :: "str option"
  rd_prerelease :: bool

text \<open>
  A \<open>datetime\<close> value: the wall-clock reading in microseconds since 1970-01-01 00:00:00
  of its own time zone, and its \<open>tzinfo\<close> (the zone's offset from UTC in microseconds),
  absent for a naive value.
\<close>

record datetime =
  wall :: int
  tzinfo :: "int option"

text \<open>
  An HTTP response: the status code, and what \<open>response.json()\<close> gives, the parsed body
  or the exception it raises.
\<close>

record 'a response =
  status_code :: nat
  json :: "error + 'a"

text \<open>
  README.md as the run finds it: absent, present but not readable as UTF-8 text (the
  exception that \<open>open\<close> or \<open>read\<close> raises), or present with its decoded text, line ends
  as stored.
\<close>

datatype disk_file = NotFound | Unreadable error | Text str

text \<open>
  Everything outside the script that a run reads. \<open>datetime.fromisoformat\<close>, whose
  result depends on the Python version, is a parameter (\<open>None\<close> when it raises
  ValueError). The clock is one instant per run (\<open>utc_now\<close>, microseconds since the
  epoch) and the host's local offset from UTC. Each of the four endpoints answers with a
  response, or \<open>requests.get\<close> raises; for workflow runs the body is the value of its key
  \<open>workflow_runs\<close>, absent when the body has no such key. The document is \<open>readme\<close>;
  \<open>linesep\<close> is the platform's line separator, \<open>write_error\<close> the exception that opening
  README.md for writing or writing a text raises, if any, and \<open>stdout_error\<close> the
  exception that \<open>print\<close> raises when the console cannot encode the script's messages, if
  any. The API objects are taken to carry every key the script reads.
\<close>

record world =
  fromisoformat :: "str \<Rightarrow> datetime option"
  utc_now :: int
  local_utcoffset :: int
  repos_response :: "error + repo list response"
  members_response :: "error + member list response"
  runs_response :: "str \<Rightarrow> nat \<Rightarrow> error + run list option response"
  releases_response :: "str \<Rightarrow> nat \<Rightarrow> error + release list response"
  readme :: disk_file
  linesep :: str
  write_error :: "str \<Rightarrow> error option"
  stdout_error :: "error option"

subsection \<open>The API client\<close>

definition get_org_repositories :: "world \<Rightarrow> error + repo list" where
  "get_org_repositories w =
     (case repos_response w of
        Inl e \<Rightarrow> Inl e
      | Inr response \<Rightarrow> if status_code response \<noteq> 200 then Inr [] else json response)"

definition get_org_members :: "world \<Rightarrow> error + member list" where
  "get_org_members w =
     (case members_response w of
        Inl e \<Rightarrow> Inl e
      | Inr response \<Rightarrow> if status_code response \<noteq> 200 then Inr [] else json response)"

definition get_workflow_runs :: "world \<Rightarrow> str \<Rightarrow> nat \<Rightarrow> error + run list" where
  "get_workflow_runs w repo_full_name limit =
     (case runs_response w repo_full_name limit of
        Inl e \<Rightarrow> Inl e
      | Inr response \<Rightarrow>
          if status_code response \<noteq> 200 then Inr []
          else (case json response of
                  Inl e \<Rightarrow> Inl e
                | Inr None \<Rightarrow> Inr []
                | Inr (Some runs) \<Rightarrow> Inr runs))"

definition get_repo_releases :: "world \<Rightarrow> str \<Rightarrow> nat \<Rightarrow> error + release list" where
  "get_repo_releases w repo_full_name limit =
     (case releases_response w repo_full_name limit of
        Inl e \<Rightarrow> Inl e
      | Inr response \<Rightarrow> if status_code response \<noteq> 200 then Inr [] else json response)"

subsection \<open>Days since a timestamp\<close>

text \<open>
  \<open>datetime.now(tz)\<close> reads the clock in the zone \<open>tz\<close>, and in the host's local zone when
  \<open>tz\<close> is None.
\<close>

definition now :: "world \<Rightarrow> int option \<Rightarrow> datetime" where
  "now w tz =
     \<lparr>wall = utc_now w + (case tz of None \<Rightarrow> local_utcoffset w | Some off \<Rightarrow> off),
      tzinfo = tz\<rparr>"

text \<open>
  \<open>(datetime.now(d.tzinfo) - d).days\<close>: both values carry the same \<open>tzinfo\<close>, so the
  difference is that of the wall-clock readings, and \<open>days\<close> is its floor in days.
\<close>

definition time_ago :: "world \<Rightarrow> datetime \<Rightarrow> int" where
  "time_ago w d = (wall (now w (tzinfo d)) - wall d) div 86400000000"

text \<open>\<open>datetime.fromisoformat(s.replace('Z', '+00:00'))\<close>, raising ValueError.\<close>

definition parse_timestamp :: "world \<Rightarrow> str \<Rightarrow> error + datetime" where
  "parse_timestamp w s =
     (case fromisoformat w (replace_str s (lit ''Z'') (lit ''+00:00'')) of
        None \<Rightarrow> Inl ValueError
      | Some d \<Rightarrow> Inr d)"

text \<open>The three-way \<open>time_str\<close> of the activity feed (lines 96 to 101).\<close>

definition time_str_activity :: "int \<Rightarrow> str" where
  "time_str_activity t =
     (if t = 0 then lit ''today''
      else if t = 1 then lit ''yesterday''
      else str_int t @ lit '' days ago'')"

text \<open>The \<open>time_str\<close> of the build status (lines 136 to 141).\<close>

definition time_str_build :: "int \<Rightarrow> str" where
  "time_str_build t =
     (if t = 0 then lit ''today''
      else if t = 1 then lit ''yesterday''
      else str_int t @ lit ''d ago'')"

text \<open>The \<open>time_str\<close> of the releases (lines 210 to 215).\<close>

definition time_str_release :: "int \<Rightarrow> str" where
  "time_str_release t =
     (if t = 0 then lit ''today''
      else if t = 1 then lit ''yesterday''
      else str_int t @ lit ''d ago'')"

subsection \<open>The formatters\<close>

text \<open>Activity: fire, memo or books by freshness.\<close>

definition activity_emoji :: "int \<Rightarrow> str" where
  "activity_emoji t = (if t \<le> 1 then [128293] else if t \<le> 7 then [128221] else [128218])"

text \<open>
  The body of the loop of \<open>format_repository_activity\<close>. Slicing a \<open>None\<close> description
  raises TypeError.
\<close>

definition activity_entry :: "world \<Rightarrow> repo \<Rightarrow> error + str" where
  "activity_entry w r =
     (case parse_timestamp w (updated_at r) of
        Inl e \<Rightarrow> Inl e
      | Inr updated_date \<Rightarrow>
          (let t = time_ago w updated_date
           in case description r of
                None \<Rightarrow> Inl TypeError
              | Some d \<Rightarrow>
                  Inr (activity_emoji t @ lit '' **['' @ name r @ lit '']('' @ html_url r
                       @ lit '')** ('' @ fmt_opt (language r) @ lit '') - ''
                       @ take 80 d @ (if 80 < length d then lit ''...'' else [])
                       @ [10] @ lit ''   '' @ [11088] @ lit '' '' @ str_int (stargazers_count r)
                       @ lit '' stars '' @ [8226] @ lit '' Updated '' @ time_str_activity t)))"

definition format_repository_activity :: "world \<Rightarrow> repo list \<Rightarrow> error + str" where
  "format_repository_activity w repos =
     (if repos = [] then Inr (lit ''No recent activity found.'')
      else (case traverse (activity_entry w) (take 6 repos) of
              Inl e \<Rightarrow> Inl e
            | Inr activity_md \<Rightarrow> Inr (join [10, 10] activity_md)))"

text \<open>
  Build status: \<open>run.get('conclusion') or run.get('status')\<close>, looked up in the table of
  four emoji with the question mark as default.
\<close>

definition truthy :: "str option \<Rightarrow> bool" where
  "truthy v = (case v of None \<Rightarrow> False | Some s \<Rightarrow> s \<noteq> [])"

definition status_emoji :: "run \<Rightarrow> str" where
  "status_emoji r =
     (let k = (if truthy (conclusion r) then conclusion r else status r)
      in if k = Some (lit ''success'') then [9989]
         else if k = Some (lit ''failure'') then [10060]
         else if k = Some (lit ''cancelled'') then [9888, 65039]
         else if k = Some (lit ''in_progress'') then [128993]
         else [10067])"

definition build_line :: "world \<Rightarrow> run \<Rightarrow> error + str" where
  "build_line w r =
     (case parse_timestamp w (created_at r) of
        Inl e \<Rightarrow> Inl e
      | Inr created \<Rightarrow>
          Inr (lit ''   '' @ status_emoji r @ lit '' '' @ run_name r @ lit '' on '' @ [96]
               @ fmt_opt (head_branch r) @ [96] @ lit '' '' @ [8226] @ lit '' ''
               @ time_str_build (time_ago w created)))"

fun build_info :: "world \<Rightarrow> repo list \<Rightarrow> error + str list" where
  "build_info w [] = Inr []"
| "build_info w (r # rs) =
     (case get_workflow_runs w (full_name r) 2 of
        Inl e \<Rightarrow> Inl e
      | Inr runs \<Rightarrow>
          if runs = [] then build_info w rs
          else (case traverse (build_line w) runs of
                  Inl e \<Rightarrow> Inl e
                | Inr repo_builds \<Rightarrow>
                    (case build_info w rs of
                       Inl e \<Rightarrow> Inl e
                     | Inr rest \<Rightarrow>
                         Inr ((if repo_builds \<noteq> []
                               then [lit ''**'' @ name r @ lit ''**'' @ [10] @ join [10] repo_builds]
                               else []) @ rest))))"

definition format_build_status :: "world \<Rightarrow> repo list \<Rightarrow> error + str" where
  "format_build_status w repos =
     (case build_info w (take 4 repos) of
        Inl e \<Rightarrow> Inl e
      | Inr info \<Rightarrow>
          Inr (if info \<noteq> [] then join [10, 10] info else lit ''No recent builds found.''))"

text \<open>Team members: the first eight, as linked avatar images.\<close>

definition member_info :: "member \<Rightarrow> str" where
  "member_info m =
     lit ''[<img src='' @ [39] @ avatar_url m @ [39] @ lit '' width='' @ [39] @ lit ''30'' @ [39]
     @ lit '' height='' @ [39] @ lit ''30'' @ [39] @ lit '' alt='' @ [39] @ login m @ [39]
     @ lit ''>]('' @ member_html_url m @ lit '')''"

definition format_team_members :: "member list \<Rightarrow> str" where
  "format_team_members members =
     (if members = [] then lit ''No team members found.''
      else join (lit '' '') (map member_info (take 8 members)))"

text \<open>Active repositories: one line each, lock or globe by visibility.\<close>

definition repo_info :: "repo \<Rightarrow> str" where
  "repo_info r =
     (if is_private r then [128274] else [127760]) @ lit '' **['' @ name r @ lit '']('' @ html_url r
     @ lit '')** ('' @ fmt_opt (language r) @ lit '') - '' @ [11088] @ lit '' ''
     @ str_int (stargazers_count r)"

definition format_active_repos :: "repo list \<Rightarrow> str" where
  "format_active_repos repos =
     (if repos = [] then lit ''No repositories found.''
      else join [10] (map repo_info repos))"

text \<open>
  Releases: the releases of the first five repositories, merged, sorted by the string
  \<open>published_at\<close> with \<open>reverse=True\<close>, and the first five rendered.
\<close>

definition make_release_data :: "repo \<Rightarrow> release \<Rightarrow> release_data" where
  "make_release_data r rel =
     \<lparr>rd_repo = name r, rd_tag = tag_name rel, rd_name = release_name rel,
      rd_url = release_html_url rel, rd_published_at = published_at rel,
      rd_prerelease = prerelease rel\<rparr>"

fun collect_releases :: "world \<Rightarrow> repo list \<Rightarrow> error + release_data list" where
  "collect_releases w [] = Inr []"
| "collect_releases w (r # rs) =
     (case get_repo_releases w (full_name r) 2 of
        Inl e \<Rightarrow> Inl e
      | Inr releases \<Rightarrow>
          (case collect_releases w rs of
             Inl e \<Rightarrow> Inl e
           | Inr rest \<Rightarrow> Inr (map (make_release_data r) releases @ rest)))"

definition all_releases :: "world \<Rightarrow> repo list \<Rightarrow> error + release_data list" where
  "all_releases w repos = collect_releases w (take 5 repos)"

text \<open>
  \<open>xs.sort(key=k, reverse=True)\<close>: the list is reversed, sorted stably by ascending key
  and reversed again, so equal keys keep their order.
\<close>

definition sort_reverse :: "('a \<Rightarrow> 'k::linorder) \<Rightarrow> 'a list \<Rightarrow> 'a list" where
  "sort_reverse k xs = rev (sort_key k (rev xs))"

text \<open>
  Strings compare by code points, lexicographically. Comparing \<open>None\<close> raises TypeError,
  and a sort of two or more elements compares every key.
\<close>

definition sort_releases :: "release_data list \<Rightarrow> error + release_data list" where
  "sort_releases rs =
     (if 2 \<le> length rs \<and> None \<in> set (map rd_published_at rs) then Inl TypeError
      else Inr (sort_reverse (\<lambda>r. the (rd_published_at r)) rs))"

text \<open>The body of the rendering loop; \<open>None.replace\<close> raises AttributeError.\<close>

definition release_line :: "world \<Rightarrow> release_data \<Rightarrow> error + str" where
  "release_line w rd =
     (case rd_published_at rd of
        None \<Rightarrow> Inl AttributeError
      | Some p \<Rightarrow>
          (case parse_timestamp w p of
             Inl e \<Rightarrow> Inl e
           | Inr published_date \<Rightarrow>
               Inr ((if \<not> rd_prerelease rd then [128640] else [129514]) @ lit '' **[''
                    @ rd_repo rd @ lit '' '' @ rd_tag rd @ lit '']('' @ rd_url rd @ lit '')** - ''
                    @ time_str_release (time_ago w published_date))))"

definition format_latest_releases :: "world \<Rightarrow> repo list \<Rightarrow> error + str" where
  "format_latest_releases w repos =
     (case all_releases w repos of
        Inl e \<Rightarrow> Inl e
      | Inr fetched \<Rightarrow>
          (case sort_releases fetched of
             Inl e \<Rightarrow> Inl e
           | Inr sorted_releases \<Rightarrow>
               if sorted_releases = [] then Inr (lit ''No recent releases found.'')
               else (case traverse (release_line w) (take 5 sorted_releases) of
                       Inl e \<Rightarrow> Inl e
                     | Inr release_info \<Rightarrow> Inr (join [10] release_info))))"

text \<open>
  Languages: \<open>language_stats\<close> is a dictionary in insertion order, so an association
  list; a repository counts when its language is neither \<open>None\<close> nor empty.
\<close>

fun incr :: "'k \<Rightarrow> ('k \<times> nat) list \<Rightarrow> ('k \<times> nat) list" where
  "incr k [] = [(k, 1)]"
| "incr k ((k', c) # kvs) = (if k = k' then (k', c + 1) # kvs else (k', c) # incr k kvs)"

definition language_stats :: "repo list \<Rightarrow> (str \<times> nat) list" where
  "language_stats repos =
     foldl (\<lambda>stats r. if truthy (language r) then incr (the (language r)) stats else stats)
           [] repos"

definition sorted_languages :: "repo list \<Rightarrow> (str \<times> nat) list" where
  "sorted_languages repos = sort_reverse snd (language_stats repos)"

text \<open>
  Binary floating point. A float is a pair \<open>(m, e)\<close> of integers standing for the number
  \<open>m * 2 ^ e\<close>. \<open>round_to_float p q\<close> is the double nearest to the quotient of the
  integers \<open>p \<ge> 0\<close> and \<open>q > 0\<close>, ties to even: with \<open>2 ^ e \<le> p / q < 2 ^ (e + 1)\<close> the
  quotient is scaled by \<open>2 ^ (52 - e)\<close> and rounded to an integer of 53 bits. The range of
  the exponent of a double is not modelled (it is left only by lists of more than
  \<open>2 ^ 1000\<close> repositories).
\<close>

type_synonym float = "int \<times> int"

definition float_value :: "float \<Rightarrow> rat" where
  "float_value x = of_int (fst x) * 2 powi (snd x)"

fun bitlen :: "nat \<Rightarrow> nat" where
  "bitlen n = (if n = 0 then 0 else Suc (bitlen (n div 2)))"

definition round_half_even_div :: "int \<Rightarrow> int \<Rightarrow> int" where
  "round_half_even_div n m =
     (let f = n div m; r = n mod m
      in if 2 * r < m then f
         else if m < 2 * r then f + 1
         else if even f then f else f + 1)"

definition round_to_float :: "int \<Rightarrow> int \<Rightarrow> float" where
  "round_to_float p q =
     (if p = 0 then (0, 0)
      else (let d = int (bitlen (nat p)) - int (bitlen (nat q));
                e = (if (if 0 \<le> d then q * 2 ^ nat d \<le> p else q \<le> p * 2 ^ nat (- d))
                     then d else d - 1);
                s = 52 - e
            in (if 0 \<le> s then round_half_even_div (p * 2 ^ nat s) q
                else round_half_even_div p (q * 2 ^ nat (- s)),
                - s)))"

text \<open>\<open>a / b\<close> of two integers, and \<open>x * k\<close> of a float and an integer.\<close>

definition int_true_div :: "int \<Rightarrow> int \<Rightarrow> float" where
  "int_true_div a b = round_to_float a b"

definition float_times_int :: "float \<Rightarrow> int \<Rightarrow> float" where
  "float_times_int x k =
     (if 0 \<le> snd x then round_to_float (fst x * k * 2 ^ nat (snd x)) 1
      else round_to_float (fst x * k) (2 ^ nat (- snd x)))"

text \<open>\<open>(count / len(repos)) * 100\<close>.\<close>

definition percentage :: "nat \<Rightarrow> repo list \<Rightarrow> float" where
  "percentage count repos = float_times_int (int_true_div (int count) (int (length repos))) 100"

text \<open>
  \<open>f'{x:.1f}'\<close> for a float that is not negative: the exact value of the float, rounded to
  one decimal, ties to even.
\<close>

definition format_1f :: "float \<Rightarrow> str" where
  "format_1f x =
     (let tenths = (if 0 \<le> snd x then fst x * 10 * 2 ^ nat (snd x)
                    else round_half_even_div (fst x * 10) (2 ^ nat (- snd x)))
      in str_int (tenths div 10) @ lit ''.'' @ str_int (tenths mod 10))"

definition lang_info :: "repo list \<Rightarrow> str \<times> nat \<Rightarrow> str" where
  "lang_info repos lc =
     lit ''**'' @ fst lc @ lit ''** ('' @ str_int (int (snd lc)) @ lit '' repos, ''
     @ format_1f (percentage (snd lc) repos) @ lit ''%)''"

definition format_org_languages :: "repo list \<Rightarrow> str" where
  "format_org_languages repos =
     (if language_stats repos = [] then lit ''No language data available.''
      else join (lit '' '' @ [8226] @ lit '' '')
                (map (lang_info repos) (take 8 (sorted_languages repos))))"

subsection \<open>The document updater\<close>

text \<open>
  \<open>datetime.now().strftime('%Y-%m-%d %H:%M:%S UTC')\<close>. \<open>datetime.now()\<close> has no zone
  argument, so it is the naive local reading of the clock. The calendar is the proleptic
  Gregorian one of the library; \<open>civil_from_days\<close> gives year, month and day of a day
  number counted from 1970-01-01.
\<close>

definition civil_from_days :: "int \<Rightarrow> int \<times> int \<times> int" where
  "civil_from_days z =
     (let z1 = z + 719468;
          era = z1 div 146097;
          doe = z1 mod 146097;
          yoe = (doe - doe div 1460 + doe div 36524 - doe div 146096) div 365;
          doy = doe - (365 * yoe + yoe div 4 - yoe div 100);
          mp = (5 * doy + 2) div 153;
          d = doy - (153 * mp + 2) div 5 + 1;
          m = (if mp < 10 then mp + 3 else mp - 9);
          y = yoe + era * 400 + (if m \<le> 2 then 1 else 0)
      in (y, m, d))"

text \<open>A number in at least \<open>n\<close> digits, zero-padded.\<close>

definition zero_padded :: "nat \<Rightarrow> int \<Rightarrow> str" where
  "zero_padded n i = (let s = str_int i in replicate (n - length s) 48 @ s)"

definition strftime_utc :: "datetime \<Rightarrow> str" where
  "strftime_utc d =
     (let secs = wall d div 1000000;
          days = secs div 86400;
          sod = secs mod 86400;
          ymd = civil_from_days days
      in zero_padded 4 (fst ymd) @ lit ''-'' @ zero_padded 2 (fst (snd ymd)) @ lit ''-''
         @ zero_padded 2 (snd (snd ymd)) @ lit '' '' @ zero_padded 2 (sod div 3600) @ lit '':''
         @ zero_padded 2 (sod mod 3600 div 60) @ lit '':'' @ zero_padded 2 (sod mod 60)
         @ lit '' UTC'')"

text \<open>The seven markers, in the order of the dictionary \<open>replacements\<close>.\<close>

definition replacements ::
  "world \<Rightarrow> str \<Rightarrow> str \<Rightarrow> str \<Rightarrow> str \<Rightarrow> str \<Rightarrow> str \<Rightarrow> (str \<times> str) list" where
  "replacements w activity_content build_content team_content active_repos_content
       releases_content languages_content =
     [(lit ''<!-- RECENT_ACTIVITY:START -->'', activity_content),
      (lit ''<!-- BUILD_STATUS:START -->'', build_content),
      (lit ''<!-- TEAM_MEMBERS:START -->'', team_content),
      (lit ''<!-- ACTIVE_REPOS:START -->'', active_repos_content),
      (lit ''<!-- LATEST_RELEASES:START -->'', releases_content),
      (lit ''<!-- ORG_LANGUAGES:START -->'', languages_content),
      (lit ''<!-- LAST_UPDATED -->'', strftime_utc (now w None))]"

text \<open>The body of the loop over \<open>replacements.items()\<close> (lines 285 to 296).\<close>

definition replace_marker :: "str \<Rightarrow> str \<times> str \<Rightarrow> str" where
  "replace_marker content mr =
     (let marker = fst mr; replacement = snd mr
      in if contains marker content
         then if endswith marker (lit ''START -->'')
              then (let end_marker = replace_str marker (lit ''START'') (lit ''END'');
                        start_idx = find_str content marker;
                        end_idx = find_str content end_marker
                    in if start_idx \<noteq> - 1 \<and> end_idx \<noteq> - 1
                       then slice_to content (start_idx + int (length marker))
                            @ [10] @ replacement @ [10] @ slice_from content end_idx
                       else content)
              else replace_str content marker replacement
         else content)"

definition update_content :: "(str \<times> str) list \<Rightarrow> str \<Rightarrow> str" where
  "update_content repl content = foldl replace_marker content repl"

text \<open>
  Reading a file opened in text mode turns every \<open>\r\n\<close> and every lone \<open>\r\<close> into
  \<open>\n\<close>; writing turns every \<open>\n\<close> into the platform's line separator.
\<close>

fun translate_newlines :: "str \<Rightarrow> str" where
  "translate_newlines [] = []"
| "translate_newlines [c] = (if c = 13 then [10] else [c])"
| "translate_newlines (c # c' # cs) =
     (if c = 13 \<and> c' = 10 then 10 # translate_newlines cs
      else if c = 13 then 10 # translate_newlines (c' # cs)
      else c # translate_newlines (c' # cs))"

definition written_text :: "world \<Rightarrow> str \<Rightarrow> str" where
  "written_text w content = replace_str content [10] (linesep w)"

text \<open>
  \<open>update_readme\<close>: the value returned and README.md as the run leaves it, or the
  exception that escapes. The first statement prints; the two fetches and the formatters
  run before the document is read; only FileNotFoundError is caught.
\<close>

definition update_readme :: "world \<Rightarrow> error + bool \<times> disk_file" where
  "update_readme w =
     (case stdout_error w of
        Some e \<Rightarrow> Inl e
      | None \<Rightarrow>
     (case get_org_repositories w of
        Inl e \<Rightarrow> Inl e
      | Inr repos \<Rightarrow>
     (case get_org_members w of
        Inl e \<Rightarrow> Inl e
      | Inr members \<Rightarrow>
     (case format_repository_activity w repos of
        Inl e \<Rightarrow> Inl e
      | Inr activity_content \<Rightarrow>
     (case format_build_status w repos of
        Inl e \<Rightarrow> Inl e
      | Inr build_content \<Rightarrow>
     (case format_latest_releases w repos of
        Inl e \<Rightarrow> Inl e
      | Inr releases_content \<Rightarrow>
     (case readme w of
        NotFound \<Rightarrow> Inr (False, NotFound)
      | Unreadable e \<Rightarrow> Inl e
      | Text stored \<Rightarrow>
          (let content =
                 update_content
                   (replacements w activity_content build_content (format_team_members members)
                      (format_active_repos repos) releases_content (format_org_languages repos))
                   (translate_newlines stored)
           in case write_error w content of
                Some e \<Rightarrow> Inl e
              | None \<Rightarrow> Inr (True, Text (written_text w content))))))))))"


subsection \<open>Concrete runs\<close>

text \<open>
  A host whose fetches all fail with status 404 and that has no README.md, at
  2024-03-10 12:00:00 UTC on a machine two hours ahead of UTC. Its \<open>fromisoformat\<close>
  knows six midnights (UTC) of 2024. Lines end in \<open>\n\<close>, and the console and the
  document can be written.
\<close>

definition example_fromisoformat :: "str \<Rightarrow> datetime option" where
  "example_fromisoformat s =
     (if s = lit ''2024-03-10T00:00:00+00:00'' then Some \<lparr>wall = 1710028800000000, tzinfo = Some 0\<rparr>
      else if s = lit ''2024-03-09T00:00:00+00:00'' then Some \<lparr>wall = 1709942400000000, tzinfo = Some 0\<rparr>
      else if s = lit ''2024-03-08T00:00:00+00:00'' then Some \<lparr>wall = 1709856000000000, tzinfo = Some 0\<rparr>
      else if s = lit ''2024-03-01T00:00:00+00:00'' then Some \<lparr>wall = 1709251200000000, tzinfo = Some 0\<rparr>
      else if s = lit ''2024-02-01T00:00:00+00:00'' then Some \<lparr>wall = 1706745600000000, tzinfo = Some 0\<rparr>
      else if s = lit ''2024-01-01T00:00:00+00:00'' then Some \<lparr>wall = 1704067200000000, tzinfo = Some 0\<rparr>
      else None)"

definition example_world :: world where
  "example_world =
     \<lparr>fromisoformat = example_fromisoformat,
      utc_now = 1710072000000000,
      local_utcoffset = 7200000000,
      repos_response = Inr \<lparr>status_code = 404, json = Inr []\<rparr>,
      members_response = Inr \<lparr>status_code = 404, json = Inr []\<rparr>,
      runs_response = (\<lambda>full_name limit. Inr \<lparr>status_code = 404, json = Inr None\<rparr>),
      releases_response = (\<lambda>full_name limit. Inr \<lparr>status_code = 404, json = Inr []\<rparr>),
      readme = NotFound,
      linesep = [10],
      write_error = (\<lambda>content. None),
      stdout_error = None\<rparr>"

definition example_repo :: repo where
  "example_repo =
     \<lparr>name = lit ''app'', full_name = lit ''Care-Alarm/app'',
      description = Some (lit ''The app''), language = Some (lit ''Python''),
      updated_at = lit ''2024-03-08T00:00:00Z'', stargazers_count = 3, is_private = False,
      html_url = lit ''https://github.com/Care-Alarm/app''\<rparr>"

text \<open>Two repositories, one of which declares no language.\<close>

definition two_repos :: "repo list" where
  "two_repos = [example_repo, example_repo\<lparr>name := lit ''docs'', language := None\<rparr>]"

text \<open>
  Releases: repository app has v1 (1 January) and v2 (1 March), repository docs has d1,
  published at the same second as v2.
\<close>

definition example_release :: "string \<Rightarrow> string \<Rightarrow> release" where
  "example_release tag published =
     \<lparr>tag_name = lit tag, release_name = None, release_html_url = lit ''u'',
      published_at = Some (lit published), prerelease = False\<rparr>"

definition releases_world :: world where
  "releases_world =
     example_world
       \<lparr>releases_response :=
          (\<lambda>full_name limit.
             if full_name = lit ''Care-Alarm/app''
             then Inr \<lparr>status_code = 200,
                       json = Inr [example_release ''v1'' ''2024-01-01T00:00:00Z'',
                                   example_release ''v2'' ''2024-03-01T00:00:00Z'']\<rparr>
             else Inr \<lparr>status_code = 200,
                       json = Inr [example_release ''d1'' ''2024-03-01T00:00:00Z'']\<rparr>)\<rparr>"

definition release_repos :: "repo list" where
  "release_repos =
     [example_repo, example_repo\<lparr>name := lit ''docs'', full_name := lit ''Care-Alarm/docs''\<rparr>]"


text \<open>A document with the timestamp marker once.\<close>

definition stamp_world :: world where
  "stamp_world = example_world\<lparr>readme := Text (lit ''Updated: <!-- LAST_UPDATED -->.'')\<rparr>"

text \<open>
  A repository whose description is the text of the build-status start marker, and a
  document with the activity and the build-status section and the word KEEP between
  them.
\<close>

definition marker_repo_world :: world where
  "marker_repo_world =
     example_world
       \<lparr>repos_response :=
          Inr \<lparr>status_code = 200,
               json = Inr [example_repo\<lparr>description := Some (lit ''<!-- BUILD_STATUS:START -->'')\<rparr>]\<rparr>,
        readme :=
          Text (lit ''<!-- RECENT_ACTIVITY:START -->x<!-- RECENT_ACTIVITY:END --> KEEP <!-- BUILD_STATUS:START -->y<!-- BUILD_STATUS:END -->'')\<rparr>"

text \<open>A document whose language section has its end marker before its start marker.\<close>

definition reversed_world :: world where
  "reversed_world =
     example_world
       \<lparr>readme := Text (lit ''<!-- ORG_LANGUAGES:END -->A<!-- ORG_LANGUAGES:START -->B'')\<rparr>"

text \<open>A document whose activity section lies inside its build-status section.\<close>

definition nested_world :: world where
  "nested_world =
     example_world
       \<lparr>readme :=
          Text (lit ''<!-- BUILD_STATUS:START -->a<!-- RECENT_ACTIVITY:START -->x<!-- RECENT_ACTIVITY:END -->b<!-- BUILD_STATUS:END -->'')\<rparr>"





definition example_release_data :: release_data where
  "example_release_data =
     make_release_data example_repo (example_release ''v3'' ''2024-03-10T00:00:00Z'')"


text \<open>
  Three repositories updated today, the day before and two days ago, with workflow runs
  and releases of the same three days.
\<close>

definition days_repos :: "repo list" where
  "days_repos =
     [example_repo\<lparr>updated_at := lit ''2024-03-10T00:00:00Z''\<rparr>,
      example_repo\<lparr>name := lit ''docs'', full_name := lit ''Care-Alarm/docs'',
                    updated_at := lit ''2024-03-09T00:00:00Z''\<rparr>,
      example_repo\<lparr>name := lit ''web'', full_name := lit ''Care-Alarm/web''\<rparr>]"


text \<open>
  Six releases with six different publish times, fetched out of order: app has a1
  (1 January) and a2 (10 March), docs has d1 (1 March) and d2 (1 February), web has w1
  (9 March) and w2 (8 March).
\<close>

definition six_releases_world :: world where
  "six_releases_world =
     example_world
       \<lparr>releases_response :=
          (\<lambda>full_name limit.
             if full_name = lit ''Care-Alarm/app''
             then Inr \<lparr>status_code = 200,
                       json = Inr [example_release ''a1'' ''2024-01-01T00:00:00Z'',
                                   example_release ''a2'' ''2024-03-10T00:00:00Z'']\<rparr>
             else if full_name = lit ''Care-Alarm/docs''
             then Inr \<lparr>status_code = 200,
                       json = Inr [example_release ''d1'' ''2024-03-01T00:00:00Z'',
                                   example_release ''d2'' ''2024-02-01T00:00:00Z'']\<rparr>
             else Inr \<lparr>status_code = 200,
                       json = Inr [example_release ''w1'' ''2024-03-09T00:00:00Z'',
                                   example_release ''w2'' ''2024-03-08T00:00:00Z'']\<rparr>)\<rparr>"

text \<open>A release of repository \<open>repo\<close> as \<open>format_latest_releases\<close> collects it.\<close>

definition example_release_of :: "string \<Rightarrow> string \<Rightarrow> string \<Rightarrow> release_data" where
  "example_release_of repo tag published =
     \<lparr>rd_repo = lit repo, rd_tag = lit tag, rd_name = None, rd_url = lit ''u'',
      rd_published_at = Some (lit published), rd_prerelease = False\<rparr>"



subsection \<open>Predicates of the specification\<close>

text \<open>
  \<open>sub\<close> occurs in \<open>s\<close> at index \<open>i\<close> and at no lower index: the first occurrence, by
  equality of code points (so upper and lower case differ).
\<close>

definition first_at :: "'a list \<Rightarrow> 'a list \<Rightarrow> nat \<Rightarrow> bool" where
  "first_at sub s i = (i \<le> length s \<and> prefix sub (drop i s) \<and> (\<forall>j<i. \<not> prefix sub (drop j s)))"

text \<open>
  The six paired start markers in the order of \<open>replacements\<close>, the end marker of a
  start marker as line 287 computes it, the timestamp marker, and all thirteen marker
  texts.
\<close>

definition start_markers :: "str list" where
  "start_markers =
     [lit ''<!-- RECENT_ACTIVITY:START -->'', lit ''<!-- BUILD_STATUS:START -->'',
      lit ''<!-- TEAM_MEMBERS:START -->'', lit ''<!-- ACTIVE_REPOS:START -->'',
      lit ''<!-- LATEST_RELEASES:START -->'', lit ''<!-- ORG_LANGUAGES:START -->'']"

definition end_marker :: "str \<Rightarrow> str" where
  "end_marker marker = replace_str marker (lit ''START'') (lit ''END'')"

definition stamp_marker :: str where
  "stamp_marker = lit ''<!-- LAST_UPDATED -->''"

definition markers :: "str list" where
  "markers = start_markers @ map end_marker start_markers @ [stamp_marker]"

text \<open>
  A document in pieces: plain text, the section of the \<open>k\<close>-th paired marker (start
  marker, body, end marker), and the timestamp marker. \<open>render\<close> is the text of the
  document, and \<open>marks\<close> lists the marker texts that the pieces themselves put into it,
  each with the index at which it starts.
\<close>

datatype piece = Plain str | Section nat str | Stamp

fun render_piece :: "piece \<Rightarrow> str" where
  "render_piece (Plain t) = t"
| "render_piece (Section k body) = start_markers ! k @ body @ end_marker (start_markers ! k)"
| "render_piece Stamp = stamp_marker"

definition render :: "piece list \<Rightarrow> str" where
  "render ps = concat (map render_piece ps)"

fun section_ids :: "piece list \<Rightarrow> nat list" where
  "section_ids [] = []"
| "section_ids (Plain t # ps) = section_ids ps"
| "section_ids (Section k body # ps) = k # section_ids ps"
| "section_ids (Stamp # ps) = section_ids ps"

fun marks :: "nat \<Rightarrow> piece list \<Rightarrow> (str \<times> nat) list" where
  "marks off [] = []"
| "marks off (Plain t # ps) = marks (off + length t) ps"
| "marks off (Section k body # ps) =
     (start_markers ! k, off)
     # (end_marker (start_markers ! k), off + length (start_markers ! k) + length body)
     # marks (off + length (render_piece (Section k body))) ps"
| "marks off (Stamp # ps) = (stamp_marker, off) # marks (off + length stamp_marker) ps"

text \<open>The indices, counted from \<open>off\<close>, at which \<open>sub\<close> occurs in a text.\<close>

fun occurrences :: "nat \<Rightarrow> 'a list \<Rightarrow> 'a list \<Rightarrow> nat list" where
  "occurrences off sub [] = []"
| "occurrences off sub (c # cs) =
     (if prefix sub (c # cs) then [off] else []) @ occurrences (off + 1) sub cs"

text \<open>
  An ordinary document: each paired marker has at most one section, and no marker text
  occurs in it except where a section or a timestamp piece puts it. So no section lies
  inside another, no end marker comes before its start marker, and the plain text and
  the bodies hold no marker text.
\<close>

definition ordinary :: "piece list \<Rightarrow> bool" where
  "ordinary ps \<longleftrightarrow>
     distinct (section_ids ps) \<and> (\<forall>k\<in>set (section_ids ps). k < 6)
     \<and> (\<forall>m\<in>set markers. \<forall>i\<in>set (occurrences 0 m (render ps)). (m, i) \<in> set (marks 0 ps))"

text \<open>A fragment that holds none of the thirteen marker texts.\<close>

definition marker_free :: "str \<Rightarrow> bool" where
  "marker_free r \<longleftrightarrow> (\<forall>m\<in>set markers. \<not> contains m r)"

text \<open>
  The pieces after a run with the seven fragments: plain text stays, the body of section
  \<open>k\<close> becomes the \<open>k\<close>-th fragment between two line ends, and a timestamp marker becomes
  the seventh fragment. \<open>fill_section\<close> and \<open>fill_stamp\<close> are the effect of one
  replacement.
\<close>

fun fill :: "str list \<Rightarrow> piece \<Rightarrow> piece" where
  "fill fragments (Plain t) = Plain t"
| "fill fragments (Section k body) = Section k ([10] @ fragments ! k @ [10])"
| "fill fragments Stamp = Plain (fragments ! 6)"

fun fill_section :: "nat \<Rightarrow> str \<Rightarrow> piece \<Rightarrow> piece" where
  "fill_section k r (Plain t) = Plain t"
| "fill_section k r (Section k' body) =
     (if k' = k then Section k ([10] @ r @ [10]) else Section k' body)"
| "fill_section k r Stamp = Stamp"

fun fill_stamp :: "str \<Rightarrow> piece \<Rightarrow> piece" where
  "fill_stamp r (Plain t) = Plain t"
| "fill_stamp r (Section k body) = Section k body"
| "fill_stamp r Stamp = Plain r"

section \<open>Properties\<close>

subsection \<open>Searching and replacing\<close>







lemma first_at_split:
  "first_at sub s i \<Longrightarrow> s = take i s @ sub @ drop (i + length sub) s"
  unfolding first_at_def prefix_def
  by (metis append_eq_conv_conj append_take_drop_id drop_drop add.commute)

lemma replace_str_absent:
  "old \<noteq> [] \<Longrightarrow> \<not> contains old s \<Longrightarrow> replace_str s old new = s"
  by (induction s) auto


subsection \<open>The formatters on an empty list\<close>

lemma format_repository_activity_Nil:
  "format_repository_activity w [] = Inr (lit ''No recent activity found.'')"
  by (simp add: format_repository_activity_def)

lemma format_build_status_Nil:
  "format_build_status w [] = Inr (lit ''No recent builds found.'')"
  by (simp add: format_build_status_def)

lemma format_team_members_Nil: "format_team_members [] = lit ''No team members found.''"
  by (simp add: format_team_members_def)

lemma format_active_repos_Nil: "format_active_repos [] = lit ''No repositories found.''"
  by (simp add: format_active_repos_def)

lemma format_latest_releases_Nil:
  "format_latest_releases w [] = Inr (lit ''No recent releases found.'')"
  by (simp add: format_latest_releases_def all_releases_def sort_releases_def sort_reverse_def)

lemma format_org_languages_Nil:
  "format_org_languages [] = lit ''No language data available.''"
  by (simp add: format_org_languages_def language_stats_def)

text \<open>
  C7. Given an empty repository list, each of the five formatters taking repositories
  returns its fixed fallback sentence: it raises nothing (the result is \<open>Inr\<close>, or the
  formatter has no raising expression at all) and the sentence is not the empty string.
\<close>

theorem empty_repository_list_gives_fallback:
  "format_repository_activity w [] = Inr (lit ''No recent activity found.'')
   \<and> format_build_status w [] = Inr (lit ''No recent builds found.'')
   \<and> format_active_repos [] = lit ''No repositories found.''
   \<and> format_latest_releases w [] = Inr (lit ''No recent releases found.'')
   \<and> format_org_languages [] = lit ''No language data available.''
   \<and> lit ''No recent activity found.'' \<noteq> []
   \<and> lit ''No recent builds found.'' \<noteq> []
   \<and> lit ''No repositories found.'' \<noteq> []
   \<and> lit ''No recent releases found.'' \<noteq> []
   \<and> lit ''No language data available.'' \<noteq> []"
  by (simp add: format_repository_activity_Nil format_build_status_Nil format_active_repos_Nil
      format_latest_releases_Nil format_org_languages_Nil lit_def)

subsection \<open>Loops that raise nothing\<close>


lemma traverse_length: "traverse f xs = Inr ys \<Longrightarrow> length ys = length xs"
  by (induction xs arbitrary: ys) (auto split: sum.splits)

lemma traverse_Inr_map: "traverse f xs = Inr ys \<Longrightarrow> ys = map (\<lambda>x. projr (f x)) xs"
  by (induction xs arbitrary: ys) (auto split: sum.splits)

subsection \<open>The activity feed\<close>





lemma parse_timestamp_example:
  "parse_timestamp example_world (lit ''2024-03-10T00:00:00Z'') = Inr \<lparr>wall = 1710028800000000, tzinfo = Some 0\<rparr>"
  "parse_timestamp example_world (lit ''2024-03-09T00:00:00Z'') = Inr \<lparr>wall = 1709942400000000, tzinfo = Some 0\<rparr>"
  "parse_timestamp example_world (lit ''2024-03-08T00:00:00Z'') = Inr \<lparr>wall = 1709856000000000, tzinfo = Some 0\<rparr>"
  "parse_timestamp example_world (lit ''2024-03-01T00:00:00Z'') = Inr \<lparr>wall = 1709251200000000, tzinfo = Some 0\<rparr>"
  "parse_timestamp example_world (lit ''2024-02-01T00:00:00Z'') = Inr \<lparr>wall = 1706745600000000, tzinfo = Some 0\<rparr>"
  "parse_timestamp example_world (lit ''2024-01-01T00:00:00Z'') = Inr \<lparr>wall = 1704067200000000, tzinfo = Some 0\<rparr>"
  by (simp_all add: parse_timestamp_def example_world_def example_fromisoformat_def lit_def)

lemma time_ago_example:
  "time_ago example_world \<lparr>wall = 1710028800000000, tzinfo = Some 0\<rparr> = 0"
  "time_ago example_world \<lparr>wall = 1709942400000000, tzinfo = Some 0\<rparr> = 1"
  "time_ago example_world \<lparr>wall = 1709856000000000, tzinfo = Some 0\<rparr> = 2"
  "time_ago example_world \<lparr>wall = 1709251200000000, tzinfo = Some 0\<rparr> = 9"
  "time_ago example_world \<lparr>wall = 1706745600000000, tzinfo = Some 0\<rparr> = 38"
  "time_ago example_world \<lparr>wall = 1704067200000000, tzinfo = Some 0\<rparr> = 69"
  by (simp_all add: time_ago_def now_def example_world_def)



subsection \<open>Build status and releases when nothing raises\<close>






lemma set_sort_reverse: "set (sort_reverse k xs) = set xs"
  by (simp add: sort_reverse_def)

lemma length_sort_reverse: "length (sort_reverse k xs) = length xs"
  by (simp add: sort_reverse_def)


text \<open>The decimal digits of \<open>str_nat\<close> read back as the number.\<close>

lemma str_nat_digits: "set (str_nat n) \<subseteq> {48..57}"
proof (induction n rule: str_nat.induct)
  case (1 n)
  show ?case
  proof (cases "n < 10")
    case True
    then show ?thesis by (subst str_nat.simps) simp
  next
    case False
    have "n mod 10 < 10" by simp
    then have "48 + n mod 10 \<in> {48..57}" by (simp del: mod_less_divisor)
    with 1 False show ?thesis by (subst str_nat.simps) simp
  qed
qed

lemma str_nat_value: "foldl (\<lambda>a c. 10 * a + (c - 48)) 0 (str_nat n) = n"
proof (induction n rule: str_nat.induct)
  case (1 n)
  show ?case
  proof (cases "n < 10")
    case True
    then show ?thesis by (subst str_nat.simps) simp
  next
    case False
    with 1 show ?thesis by (subst str_nat.simps) simp
  qed
qed

subsection \<open>The wording of a day difference\<close>






subsection \<open>The order of the releases\<close>

lemma sort_reverse_descending: "sorted_wrt (\<lambda>a b. k b \<le> k a) (sort_reverse k xs)"
proof -
  have "sorted (map k (sort_key k (rev xs)))"
    by (rule sorted_sort_key)
  then have "sorted_wrt (\<lambda>a b. k a \<le> k b) (sort_key k (rev xs))"
    by (simp add: sorted_map)
  then show ?thesis
    by (simp add: sort_reverse_def sorted_wrt_rev)
qed

lemma sort_reverse_strict:
  assumes "distinct (map k xs)"
  shows "sorted_wrt (\<lambda>a b. k b < k a) (sort_reverse k xs)"
proof -
  let ?ys = "sort_key k (rev xs)"
  have "distinct (map k (rev xs))"
    using assms by (simp add: rev_map [symmetric])
  then have "distinct (map k ?ys)"
    by (simp add: distinct_map)
  moreover have "sorted (map k ?ys)"
    by (rule sorted_sort_key)
  ultimately have "sorted_wrt (<) (map k ?ys)"
    by (simp add: strict_sorted_iff)
  then have "sorted_wrt (\<lambda>a b. k a < k b) ?ys"
    by (simp add: sorted_wrt_map)
  then show ?thesis
    by (simp add: sort_reverse_def sorted_wrt_rev)
qed

text \<open>Equal keys keep the order they had before the sort.\<close>

lemma sort_reverse_stable:
  "filter (\<lambda>y. k y = t) (sort_reverse k xs) = filter (\<lambda>y. k y = t) xs"
proof -
  have "filter (\<lambda>y. k y = t) (sort_reverse k xs)
        = rev (filter (\<lambda>y. k y = t) (sort_key k (rev xs)))"
    by (simp add: sort_reverse_def rev_filter)
  also have "\<dots> = rev (filter (\<lambda>y. k y = t) (rev xs))"
    by (simp add: sort_key_stable)
  also have "\<dots> = filter (\<lambda>y. k y = t) xs"
    by (simp add: rev_filter)
  finally show ?thesis .
qed

lemma sorted_wrt_short: "length xs < 2 \<Longrightarrow> sorted_wrt P xs"
  by (cases xs) (auto simp: less_Suc_eq)

lemma sorted_wrt_agree:
  "sorted_wrt P xs \<Longrightarrow> (\<forall>a\<in>set xs. \<forall>b\<in>set xs. P a b \<longrightarrow> Q a b) \<Longrightarrow> sorted_wrt Q xs"
  by (induction xs) auto

text \<open>
  C4, as the code has it. Let the fetches raise nothing and let the sort raise nothing
  (two or more releases all carry a timestamp). The sorted list holds exactly the fetched
  releases, in non-increasing order of their \<open>published_at\<close> strings, compared by code
  points; releases with the same string keep their fetch order; the order is strictly
  decreasing when no two fetched releases share a timestamp. Where the order of the
  strings agrees with the order of the instants they parse to, the releases are in
  non-increasing order of publish time. The first five of the sorted list are rendered,
  one line each, joined by newlines.
\<close>

theorem releases_descending_and_capped:
  fixes w :: world
  defines "key \<equiv> \<lambda>rd. the (rd_published_at rd)"
    and "instant \<equiv> \<lambda>rd. (let d = projr (parse_timestamp w (the (rd_published_at rd)))
                              in wall d - (case tzinfo d of None \<Rightarrow> 0 | Some off \<Rightarrow> off))"
  assumes "all_releases w repos = Inr fetched"
    and "sort_releases fetched = Inr sorted_releases"
  shows "sorted_wrt (\<lambda>a b. key b \<le> key a) sorted_releases
       \<and> (\<forall>t. filter (\<lambda>rd. key rd = t) sorted_releases = filter (\<lambda>rd. key rd = t) fetched)
       \<and> (distinct (map rd_published_at fetched) \<longrightarrow>
            sorted_wrt (\<lambda>a b. key b < key a) sorted_releases)
       \<and> ((\<forall>a\<in>set fetched. \<forall>b\<in>set fetched. key b \<le> key a \<longrightarrow> instant b \<le> instant a) \<longrightarrow>
            sorted_wrt (\<lambda>a b. instant b \<le> instant a) sorted_releases)
       \<and> set sorted_releases = set fetched
       \<and> length sorted_releases = length fetched
       \<and> length (take 5 sorted_releases) = min 5 (length fetched)
       \<and> (fetched \<noteq> [] \<and> traverse (release_line w) (take 5 sorted_releases) = Inr release_info \<longrightarrow>
            format_latest_releases w repos = Inr (join [10] release_info)
            \<and> length release_info = min 5 (length fetched)
            \<and> release_info = map (\<lambda>rd. projr (release_line w rd)) (take 5 sorted_releases))"
proof -
  from assms(4) have s: "sorted_releases = sort_reverse key fetched"
    and ok: "\<not> (2 \<le> length fetched \<and> None \<in> set (map rd_published_at fetched))"
    by (auto simp: sort_releases_def key_def split: if_splits)
  have desc: "sorted_wrt (\<lambda>a b. key b \<le> key a) sorted_releases"
    unfolding s by (rule sort_reverse_descending)
  have stable: "\<forall>t. filter (\<lambda>rd. key rd = t) sorted_releases = filter (\<lambda>rd. key rd = t) fetched"
    unfolding s by (simp add: sort_reverse_stable)
  have strict: "sorted_wrt (\<lambda>a b. key b < key a) sorted_releases"
    if d: "distinct (map rd_published_at fetched)"
  proof (cases "2 \<le> length fetched")
    case True
    with ok have some: "None \<notin> set (map rd_published_at fetched)" by simp
    from d have dd: "distinct fetched" "inj_on rd_published_at (set fetched)"
      by (simp_all add: distinct_map)
    have "inj_on key (set fetched)"
    proof (rule inj_onI)
      fix a b
      assume a: "a \<in> set fetched" and b: "b \<in> set fetched" and e: "key a = key b"
      have "rd_published_at a \<noteq> None"
        using some a by (metis imageI set_map)
      moreover have "rd_published_at b \<noteq> None"
        using some b by (metis imageI set_map)
      ultimately have "rd_published_at a = rd_published_at b"
        using e by (auto simp: key_def intro: option.expand)
      with dd(2) a b show "a = b"
        by (auto dest: inj_onD)
    qed
    with dd(1) have "distinct (map key fetched)"
      by (simp add: distinct_map)
    then show ?thesis
      unfolding s by (rule sort_reverse_strict)
  next
    case False
    then have "length sorted_releases < 2"
      by (simp add: s length_sort_reverse)
    then show ?thesis by (rule sorted_wrt_short)
  qed
  have chrono: "sorted_wrt (\<lambda>a b. instant b \<le> instant a) sorted_releases"
    if "\<forall>a\<in>set fetched. \<forall>b\<in>set fetched. key b \<le> key a \<longrightarrow> instant b \<le> instant a"
    using desc
  proof (rule sorted_wrt_agree)
    show "\<forall>a\<in>set sorted_releases. \<forall>b\<in>set sorted_releases.
            key b \<le> key a \<longrightarrow> instant b \<le> instant a"
      using that by (simp add: s set_sort_reverse)
  qed
  have fmt: "format_latest_releases w repos = Inr (join [10] release_info)
            \<and> length release_info = min 5 (length fetched)
            \<and> release_info = map (\<lambda>rd. projr (release_line w rd)) (take 5 sorted_releases)"
    if "fetched \<noteq> []" "traverse (release_line w) (take 5 sorted_releases) = Inr release_info"
  proof -
    have "sorted_releases \<noteq> []"
      using that(1) length_sort_reverse [of key fetched] unfolding s by (metis length_0_conv)
    then have "format_latest_releases w repos = Inr (join [10] release_info)"
      using assms(3,4) that(2) by (simp add: format_latest_releases_def)
    moreover have "length release_info = min 5 (length fetched)"
      using traverse_length [OF that(2)] by (simp add: s length_sort_reverse)
    ultimately show ?thesis
      using traverse_Inr_map [OF that(2)] by simp
  qed
  show ?thesis
    using desc stable strict chrono fmt by (simp add: s set_sort_reverse length_sort_reverse)
qed

lemma six_releases_clock:
  "parse_timestamp six_releases_world = parse_timestamp example_world"
  "time_ago six_releases_world = time_ago example_world"
  by (auto simp: fun_eq_iff parse_timestamp_def time_ago_def now_def six_releases_world_def
      example_world_def split: option.splits)

lemma releases_world_clock:
  "parse_timestamp releases_world = parse_timestamp example_world"
  "time_ago releases_world = time_ago example_world"
  by (auto simp: fun_eq_iff parse_timestamp_def time_ago_def now_def releases_world_def
      example_world_def split: option.splits)

lemma six_fetched:
  "all_releases six_releases_world days_repos =
     Inr [example_release_of ''app'' ''a1'' ''2024-01-01T00:00:00Z'',
          example_release_of ''app'' ''a2'' ''2024-03-10T00:00:00Z'',
          example_release_of ''docs'' ''d1'' ''2024-03-01T00:00:00Z'',
          example_release_of ''docs'' ''d2'' ''2024-02-01T00:00:00Z'',
          example_release_of ''web'' ''w1'' ''2024-03-09T00:00:00Z'',
          example_release_of ''web'' ''w2'' ''2024-03-08T00:00:00Z'']"
  by (simp add: all_releases_def days_repos_def get_repo_releases_def six_releases_world_def
      example_world_def example_repo_def make_release_data_def example_release_def
      example_release_of_def lit_def)

lemma six_sorted:
  "sort_releases
     [example_release_of ''app'' ''a1'' ''2024-01-01T00:00:00Z'',
      example_release_of ''app'' ''a2'' ''2024-03-10T00:00:00Z'',
      example_release_of ''docs'' ''d1'' ''2024-03-01T00:00:00Z'',
      example_release_of ''docs'' ''d2'' ''2024-02-01T00:00:00Z'',
      example_release_of ''web'' ''w1'' ''2024-03-09T00:00:00Z'',
      example_release_of ''web'' ''w2'' ''2024-03-08T00:00:00Z'']
   = Inr [example_release_of ''app'' ''a2'' ''2024-03-10T00:00:00Z'',
          example_release_of ''web'' ''w1'' ''2024-03-09T00:00:00Z'',
          example_release_of ''web'' ''w2'' ''2024-03-08T00:00:00Z'',
          example_release_of ''docs'' ''d1'' ''2024-03-01T00:00:00Z'',
          example_release_of ''docs'' ''d2'' ''2024-02-01T00:00:00Z'',
          example_release_of ''app'' ''a1'' ''2024-01-01T00:00:00Z'']"
  by (simp add: sort_releases_def sort_reverse_def example_release_of_def lit_def)

lemma six_lines:
  "traverse (release_line six_releases_world)
     (take 5 [example_release_of ''app'' ''a2'' ''2024-03-10T00:00:00Z'',
          example_release_of ''web'' ''w1'' ''2024-03-09T00:00:00Z'',
          example_release_of ''web'' ''w2'' ''2024-03-08T00:00:00Z'',
          example_release_of ''docs'' ''d1'' ''2024-03-01T00:00:00Z'',
          example_release_of ''docs'' ''d2'' ''2024-02-01T00:00:00Z'',
          example_release_of ''app'' ''a1'' ''2024-01-01T00:00:00Z''])
   = Inr [[128640] @ lit '' **[app a2](u)** - today'',
          [128640] @ lit '' **[web w1](u)** - yesterday'',
          [128640] @ lit '' **[web w2](u)** - 2d ago'',
          [128640] @ lit '' **[docs d1](u)** - 9d ago'',
          [128640] @ lit '' **[docs d2](u)** - 38d ago'']"
  by (simp add: release_line_def six_releases_clock
      parse_timestamp_example [unfolded lit_def, simplified] time_ago_example
      time_str_release_def str_int_def example_release_of_def lit_def)

lemma tie_fetched:
  "all_releases releases_world release_repos =
     Inr [example_release_of ''app'' ''v1'' ''2024-01-01T00:00:00Z'',
          example_release_of ''app'' ''v2'' ''2024-03-01T00:00:00Z'',
          example_release_of ''docs'' ''d1'' ''2024-03-01T00:00:00Z'']"
  by (simp add: all_releases_def release_repos_def get_repo_releases_def releases_world_def
      example_world_def example_repo_def make_release_data_def example_release_def
      example_release_of_def lit_def)

lemma tie_sorted:
  "sort_releases
     [example_release_of ''app'' ''v1'' ''2024-01-01T00:00:00Z'',
      example_release_of ''app'' ''v2'' ''2024-03-01T00:00:00Z'',
      example_release_of ''docs'' ''d1'' ''2024-03-01T00:00:00Z'']
   = Inr [example_release_of ''app'' ''v2'' ''2024-03-01T00:00:00Z'',
          example_release_of ''docs'' ''d1'' ''2024-03-01T00:00:00Z'',
          example_release_of ''app'' ''v1'' ''2024-01-01T00:00:00Z'']"
  by (simp add: sort_releases_def sort_reverse_def example_release_of_def lit_def)

lemma tie_lines:
  "traverse (release_line releases_world)
     (take 5 [example_release_of ''app'' ''v2'' ''2024-03-01T00:00:00Z'',
          example_release_of ''docs'' ''d1'' ''2024-03-01T00:00:00Z'',
          example_release_of ''app'' ''v1'' ''2024-01-01T00:00:00Z''])
   = Inr [[128640] @ lit '' **[app v2](u)** - 9d ago'',
          [128640] @ lit '' **[docs d1](u)** - 9d ago'',
          [128640] @ lit '' **[app v1](u)** - 69d ago'']"
  by (simp add: release_line_def releases_world_clock
      parse_timestamp_example [unfolded lit_def, simplified] time_ago_example
      time_str_release_def str_int_def example_release_of_def lit_def)

theorem releases_descending_and_capped_witness:
  "all_releases six_releases_world days_repos =
     Inr [example_release_of ''app'' ''a1'' ''2024-01-01T00:00:00Z'',
          example_release_of ''app'' ''a2'' ''2024-03-10T00:00:00Z'',
          example_release_of ''docs'' ''d1'' ''2024-03-01T00:00:00Z'',
          example_release_of ''docs'' ''d2'' ''2024-02-01T00:00:00Z'',
          example_release_of ''web'' ''w1'' ''2024-03-09T00:00:00Z'',
          example_release_of ''web'' ''w2'' ''2024-03-08T00:00:00Z'']
   \<and> distinct (map rd_published_at
         [example_release_of ''app'' ''a1'' ''2024-01-01T00:00:00Z'',
          example_release_of ''app'' ''a2'' ''2024-03-10T00:00:00Z'',
          example_release_of ''docs'' ''d1'' ''2024-03-01T00:00:00Z'',
          example_release_of ''docs'' ''d2'' ''2024-02-01T00:00:00Z'',
          example_release_of ''web'' ''w1'' ''2024-03-09T00:00:00Z'',
          example_release_of ''web'' ''w2'' ''2024-03-08T00:00:00Z''])
   \<and> sorted_wrt (\<lambda>a b. the (rd_published_at b) < the (rd_published_at a))
         [example_release_of ''app'' ''a2'' ''2024-03-10T00:00:00Z'',
          example_release_of ''web'' ''w1'' ''2024-03-09T00:00:00Z'',
          example_release_of ''web'' ''w2'' ''2024-03-08T00:00:00Z'',
          example_release_of ''docs'' ''d1'' ''2024-03-01T00:00:00Z'',
          example_release_of ''docs'' ''d2'' ''2024-02-01T00:00:00Z'',
          example_release_of ''app'' ''a1'' ''2024-01-01T00:00:00Z'']
   \<and> sorted_wrt (\<lambda>a b. wall (projr (parse_timestamp six_releases_world (the (rd_published_at b))))
                       \<le> wall (projr (parse_timestamp six_releases_world (the (rd_published_at a)))))
         [example_release_of ''app'' ''a2'' ''2024-03-10T00:00:00Z'',
          example_release_of ''web'' ''w1'' ''2024-03-09T00:00:00Z'',
          example_release_of ''web'' ''w2'' ''2024-03-08T00:00:00Z'',
          example_release_of ''docs'' ''d1'' ''2024-03-01T00:00:00Z'',
          example_release_of ''docs'' ''d2'' ''2024-02-01T00:00:00Z'',
          example_release_of ''app'' ''a1'' ''2024-01-01T00:00:00Z'']
   \<and> format_latest_releases six_releases_world days_repos =
       Inr (join [10]
              [[128640] @ lit '' **[app a2](u)** - today'',
               [128640] @ lit '' **[web w1](u)** - yesterday'',
               [128640] @ lit '' **[web w2](u)** - 2d ago'',
               [128640] @ lit '' **[docs d1](u)** - 9d ago'',
               [128640] @ lit '' **[docs d2](u)** - 38d ago''])
   \<and> filter (\<lambda>rd. the (rd_published_at rd) = lit ''2024-03-01T00:00:00Z'')
         [example_release_of ''app'' ''v2'' ''2024-03-01T00:00:00Z'',
          example_release_of ''docs'' ''d1'' ''2024-03-01T00:00:00Z'',
          example_release_of ''app'' ''v1'' ''2024-01-01T00:00:00Z'']
       = filter (\<lambda>rd. the (rd_published_at rd) = lit ''2024-03-01T00:00:00Z'')
         [example_release_of ''app'' ''v1'' ''2024-01-01T00:00:00Z'',
          example_release_of ''app'' ''v2'' ''2024-03-01T00:00:00Z'',
          example_release_of ''docs'' ''d1'' ''2024-03-01T00:00:00Z'']"
proof -
  let ?fetched = "[example_release_of ''app'' ''a1'' ''2024-01-01T00:00:00Z'',
          example_release_of ''app'' ''a2'' ''2024-03-10T00:00:00Z'',
          example_release_of ''docs'' ''d1'' ''2024-03-01T00:00:00Z'',
          example_release_of ''docs'' ''d2'' ''2024-02-01T00:00:00Z'',
          example_release_of ''web'' ''w1'' ''2024-03-09T00:00:00Z'',
          example_release_of ''web'' ''w2'' ''2024-03-08T00:00:00Z'']"
  have d: "distinct (map rd_published_at ?fetched)"
    by (simp add: example_release_of_def lit_def)
  have ne: "?fetched \<noteq> []" by simp
  have agree: "\<forall>a\<in>set ?fetched. \<forall>b\<in>set ?fetched.
      the (rd_published_at b) \<le> the (rd_published_at a) \<longrightarrow>
      (let d = projr (parse_timestamp six_releases_world (the (rd_published_at b)))
       in wall d - (case tzinfo d of None \<Rightarrow> 0 | Some off \<Rightarrow> off))
      \<le> (let d = projr (parse_timestamp six_releases_world (the (rd_published_at a)))
         in wall d - (case tzinfo d of None \<Rightarrow> 0 | Some off \<Rightarrow> off))"
    by (simp add: six_releases_clock parse_timestamp_example [unfolded lit_def, simplified]
        example_release_of_def lit_def)
  note six = releases_descending_and_capped [OF six_fetched six_sorted,
      where release_info = "[[128640] @ lit '' **[app a2](u)** - today'',
               [128640] @ lit '' **[web w1](u)** - yesterday'',
               [128640] @ lit '' **[web w2](u)** - 2d ago'',
               [128640] @ lit '' **[docs d1](u)** - 9d ago'',
               [128640] @ lit '' **[docs d2](u)** - 38d ago'']"]
  note tie = releases_descending_and_capped [OF tie_fetched tie_sorted]
  have strict: "sorted_wrt (\<lambda>a b. the (rd_published_at b) < the (rd_published_at a))
         [example_release_of ''app'' ''a2'' ''2024-03-10T00:00:00Z'',
          example_release_of ''web'' ''w1'' ''2024-03-09T00:00:00Z'',
          example_release_of ''web'' ''w2'' ''2024-03-08T00:00:00Z'',
          example_release_of ''docs'' ''d1'' ''2024-03-01T00:00:00Z'',
          example_release_of ''docs'' ''d2'' ''2024-02-01T00:00:00Z'',
          example_release_of ''app'' ''a1'' ''2024-01-01T00:00:00Z'']"
    using six d by blast
  have "sorted_wrt (\<lambda>a b.
          (let d = projr (parse_timestamp six_releases_world (the (rd_published_at b)))
           in wall d - (case tzinfo d of None \<Rightarrow> 0 | Some off \<Rightarrow> off))
          \<le> (let d = projr (parse_timestamp six_releases_world (the (rd_published_at a)))
             in wall d - (case tzinfo d of None \<Rightarrow> 0 | Some off \<Rightarrow> off)))
         [example_release_of ''app'' ''a2'' ''2024-03-10T00:00:00Z'',
          example_release_of ''web'' ''w1'' ''2024-03-09T00:00:00Z'',
          example_release_of ''web'' ''w2'' ''2024-03-08T00:00:00Z'',
          example_release_of ''docs'' ''d1'' ''2024-03-01T00:00:00Z'',
          example_release_of ''docs'' ''d2'' ''2024-02-01T00:00:00Z'',
          example_release_of ''app'' ''a1'' ''2024-01-01T00:00:00Z'']"
    using six agree by blast
  then have chrono: "sorted_wrt (\<lambda>a b. wall (projr (parse_timestamp six_releases_world (the (rd_published_at b))))
                       \<le> wall (projr (parse_timestamp six_releases_world (the (rd_published_at a)))))
         [example_release_of ''app'' ''a2'' ''2024-03-10T00:00:00Z'',
          example_release_of ''web'' ''w1'' ''2024-03-09T00:00:00Z'',
          example_release_of ''web'' ''w2'' ''2024-03-08T00:00:00Z'',
          example_release_of ''docs'' ''d1'' ''2024-03-01T00:00:00Z'',
          example_release_of ''docs'' ''d2'' ''2024-02-01T00:00:00Z'',
          example_release_of ''app'' ''a1'' ''2024-01-01T00:00:00Z'']"
    by (simp add: six_releases_clock parse_timestamp_example [unfolded lit_def, simplified]
        example_release_of_def lit_def)
  have fmt: "format_latest_releases six_releases_world days_repos =
       Inr (join [10]
              [[128640] @ lit '' **[app a2](u)** - today'',
               [128640] @ lit '' **[web w1](u)** - yesterday'',
               [128640] @ lit '' **[web w2](u)** - 2d ago'',
               [128640] @ lit '' **[docs d1](u)** - 9d ago'',
               [128640] @ lit '' **[docs d2](u)** - 38d ago''])"
    using six ne six_lines by blast
  have stable: "filter (\<lambda>rd. the (rd_published_at rd) = lit ''2024-03-01T00:00:00Z'')
         [example_release_of ''app'' ''v2'' ''2024-03-01T00:00:00Z'',
          example_release_of ''docs'' ''d1'' ''2024-03-01T00:00:00Z'',
          example_release_of ''app'' ''v1'' ''2024-01-01T00:00:00Z'']
       = filter (\<lambda>rd. the (rd_published_at rd) = lit ''2024-03-01T00:00:00Z'')
         [example_release_of ''app'' ''v1'' ''2024-01-01T00:00:00Z'',
          example_release_of ''app'' ''v2'' ''2024-03-01T00:00:00Z'',
          example_release_of ''docs'' ''d1'' ''2024-03-01T00:00:00Z'']"
    using tie by blast
  from six_fetched d strict chrono fmt stable show ?thesis
    by (simp only: simp_thms)
qed

text \<open>
  The claim as written fails on a tie. Release v1 of app (1 January) comes first in the
  fetch order, before v2 of app and d1 of docs, both published on 1 March at the same
  second: the rendered order is v2, d1, v1, and v2 is not strictly later than d1.
\<close>

theorem releases_strictly_descending_counterexample:
  "format_latest_releases releases_world release_repos =
       Inr ([128640] @ lit '' **[app v2](u)** - 9d ago'' @ [10]
            @ [128640] @ lit '' **[docs d1](u)** - 9d ago'' @ [10]
            @ [128640] @ lit '' **[app v1](u)** - 69d ago'')
   \<and> all_releases releases_world release_repos =
       Inr [example_release_of ''app'' ''v1'' ''2024-01-01T00:00:00Z'',
            example_release_of ''app'' ''v2'' ''2024-03-01T00:00:00Z'',
            example_release_of ''docs'' ''d1'' ''2024-03-01T00:00:00Z'']
   \<and> sort_releases [example_release_of ''app'' ''v1'' ''2024-01-01T00:00:00Z'',
                     example_release_of ''app'' ''v2'' ''2024-03-01T00:00:00Z'',
                     example_release_of ''docs'' ''d1'' ''2024-03-01T00:00:00Z'']
       = Inr [example_release_of ''app'' ''v2'' ''2024-03-01T00:00:00Z'',
              example_release_of ''docs'' ''d1'' ''2024-03-01T00:00:00Z'',
              example_release_of ''app'' ''v1'' ''2024-01-01T00:00:00Z'']
   \<and> rd_published_at (example_release_of ''app'' ''v2'' ''2024-03-01T00:00:00Z'')
       = rd_published_at (example_release_of ''docs'' ''d1'' ''2024-03-01T00:00:00Z'')"
proof -
  have "format_latest_releases releases_world release_repos =
       Inr (join [10] [[128640] @ lit '' **[app v2](u)** - 9d ago'',
          [128640] @ lit '' **[docs d1](u)** - 9d ago'',
          [128640] @ lit '' **[app v1](u)** - 69d ago''])"
    unfolding format_latest_releases_def tie_fetched sum.case tie_sorted tie_lines
    by simp
  then have "format_latest_releases releases_world release_repos =
       Inr ([128640] @ lit '' **[app v2](u)** - 9d ago'' @ [10]
            @ [128640] @ lit '' **[docs d1](u)** - 9d ago'' @ [10]
            @ [128640] @ lit '' **[app v1](u)** - 69d ago'')"
    by simp
  moreover have "rd_published_at (example_release_of ''app'' ''v2'' ''2024-03-01T00:00:00Z'')
       = rd_published_at (example_release_of ''docs'' ''d1'' ''2024-03-01T00:00:00Z'')"
    by (simp add: example_release_of_def)
  ultimately show ?thesis
    using tie_fetched tie_sorted by (simp only: simp_thms)
qed

subsection \<open>A run of the updater\<close>

lemma replace_str_same: "replace_str s [c] [c] = s"
  by (induction s) auto

lemma written_text_unix: "linesep w = [10] \<Longrightarrow> written_text w content = content"
  by (simp add: written_text_def replace_str_same)

lemma update_readme_run:
  assumes "stdout_error w = None"
    and "get_org_repositories w = Inr repos"
    and "get_org_members w = Inr members"
    and "format_repository_activity w repos = Inr a"
    and "format_build_status w repos = Inr b"
    and "format_latest_releases w repos = Inr rl"
    and "readme w = Text stored"
    and "write_error w (update_content
           (replacements w a b (format_team_members members) (format_active_repos repos) rl
              (format_org_languages repos)) (translate_newlines stored)) = None"
  shows "update_readme w =
     Inr (True, Text (written_text w (update_content
           (replacements w a b (format_team_members members) (format_active_repos repos) rl
              (format_org_languages repos)) (translate_newlines stored))))"
  using assms by (simp add: update_readme_def Let_def)

lemma civil_from_days_example: "civil_from_days 19792 = (2024, 3, 10)"
  unfolding civil_from_days_def Let_def by simp

lemma strftime_local_example:
  "strftime_utc \<lparr>wall = 1710079200000000, tzinfo = None\<rparr> = lit ''2024-03-10 14:00:00 UTC''"
  unfolding strftime_utc_def Let_def
  by (simp add: civil_from_days_example zero_padded_def str_int_def lit_def)

lemma strftime_utc_example:
  "strftime_utc \<lparr>wall = 1710072000000000, tzinfo = Some 0\<rparr> = lit ''2024-03-10 12:00:00 UTC''"
  unfolding strftime_utc_def Let_def
  by (simp add: civil_from_days_example zero_padded_def str_int_def lit_def)

text \<open>
  A run on the example host with some document \<open>doc\<close>: every fetch fails, so the six
  fragments are the fallback sentences, and the timestamp is the local reading 14:00.
\<close>

lemma offline_run:
  "update_readme (example_world\<lparr>readme := Text doc\<rparr>) =
     Inr (True,
          Text (update_content
                  [(lit ''<!-- RECENT_ACTIVITY:START -->'', lit ''No recent activity found.''),
                   (lit ''<!-- BUILD_STATUS:START -->'', lit ''No recent builds found.''),
                   (lit ''<!-- TEAM_MEMBERS:START -->'', lit ''No team members found.''),
                   (lit ''<!-- ACTIVE_REPOS:START -->'', lit ''No repositories found.''),
                   (lit ''<!-- LATEST_RELEASES:START -->'', lit ''No recent releases found.''),
                   (lit ''<!-- ORG_LANGUAGES:START -->'', lit ''No language data available.''),
                   (lit ''<!-- LAST_UPDATED -->'', lit ''2024-03-10 14:00:00 UTC'')]
                  (translate_newlines doc)))"
proof -
  let ?w = "example_world\<lparr>readme := Text doc\<rparr>"
  have r: "get_org_repositories ?w = Inr []" and m: "get_org_members ?w = Inr []"
    by (simp_all add: get_org_repositories_def get_org_members_def example_world_def)
  have n: "now ?w None = \<lparr>wall = 1710079200000000, tzinfo = None\<rparr>"
    by (simp add: now_def example_world_def)
  have l: "linesep ?w = [10]" by (simp add: example_world_def)
  have "update_readme ?w =
     Inr (True, Text (written_text ?w (update_content
           (replacements ?w (lit ''No recent activity found.'') (lit ''No recent builds found.'')
              (format_team_members []) (format_active_repos [])
              (lit ''No recent releases found.'') (format_org_languages []))
            (translate_newlines doc))))"
    by (rule update_readme_run [OF _ r m])
       (simp_all add: format_repository_activity_Nil format_build_status_Nil
          format_latest_releases_Nil example_world_def)
  then show ?thesis
    unfolding written_text_unix [OF l] replacements_def n strftime_local_example
      format_team_members_Nil format_active_repos_Nil format_org_languages_Nil .
qed

lemma replace_marker_absent:
  "\<not> contains marker content \<Longrightarrow> replace_marker content (marker, r) = content"
  by (simp add: replace_marker_def)


text \<open>
  C2, at a failing run. The host's clock reads 2024-03-10 12:00:00 UTC and its local
  zone is two hours ahead. The document's marker is replaced in place, but by the local
  reading 14:00:00 with the letters UTC after it; the UTC time, formatted the same way,
  is 12:00:00.
\<close>

theorem timestamp_is_local_time:
  "update_readme stamp_world = Inr (True, Text (lit ''Updated: 2024-03-10 14:00:00 UTC.''))
   \<and> strftime_utc (now stamp_world (Some 0)) = lit ''2024-03-10 12:00:00 UTC''"
proof -
  have u: "now stamp_world (Some 0) = \<lparr>wall = 1710072000000000, tzinfo = Some 0\<rparr>"
    by (simp add: now_def stamp_world_def example_world_def)
  have t: "translate_newlines (lit ''Updated: <!-- LAST_UPDATED -->.'')
           = lit ''Updated: <!-- LAST_UPDATED -->.''"
    by (simp add: lit_def)
  have a: "\<not> contains (lit ''<!-- RECENT_ACTIVITY:START -->'') (lit ''Updated: <!-- LAST_UPDATED -->.'')"
    "\<not> contains (lit ''<!-- BUILD_STATUS:START -->'') (lit ''Updated: <!-- LAST_UPDATED -->.'')"
    "\<not> contains (lit ''<!-- TEAM_MEMBERS:START -->'') (lit ''Updated: <!-- LAST_UPDATED -->.'')"
    "\<not> contains (lit ''<!-- ACTIVE_REPOS:START -->'') (lit ''Updated: <!-- LAST_UPDATED -->.'')"
    "\<not> contains (lit ''<!-- LATEST_RELEASES:START -->'') (lit ''Updated: <!-- LAST_UPDATED -->.'')"
    "\<not> contains (lit ''<!-- ORG_LANGUAGES:START -->'') (lit ''Updated: <!-- LAST_UPDATED -->.'')"
    by (simp_all add: lit_def)
  have s: "replace_marker (lit ''Updated: <!-- LAST_UPDATED -->.'')
             (lit ''<!-- LAST_UPDATED -->'', lit ''2024-03-10 14:00:00 UTC'')
           = lit ''Updated: 2024-03-10 14:00:00 UTC.''"
    by (simp add: replace_marker_def lit_def endswith_def suffix_to_prefix)
  have "update_readme stamp_world = Inr (True, Text (lit ''Updated: 2024-03-10 14:00:00 UTC.''))"
    unfolding stamp_world_def offline_run update_content_def t
    by (simp only: foldl_Cons foldl_Nil s a [THEN replace_marker_absent])
  then show ?thesis
    by (simp add: u strftime_utc_example)
qed

subsection \<open>The exit status\<close>









subsection \<open>Marker matching\<close>
























end
